theory Spec2Isabelle
  imports Complex_Main "HOL-Library.AList"
begin

section \<open>JavaScript values\<close>

text \<open>
  The program is JavaScript: every value that crosses a function boundary is a dynamically
  typed value. Numbers are IEEE doubles; the finite ones are rationals, and the two zeros
  are not told apart (both are falsy, both print as 0).
\<close>

datatype js_number = NaN | PosInfinity | NegInfinity | Finite rat

datatype jsval =
    JUndefined
  | JNull
  | JBool bool
  | JNum js_number
  | JStr string
  | JArr "jsval list"
  | JObj "(string \<times> jsval) list"

text \<open>
  A plain object is its list of own properties in insertion order. Reading a property
  that is absent gives \<open>undefined\<close>; assigning to a key keeps its position when the
  key exists and appends it otherwise.
\<close>

type_synonym js_object = "(string \<times> jsval) list"

definition obj_get :: "js_object \<Rightarrow> string \<Rightarrow> jsval" where
  "obj_get obj k = (case map_of obj k of None \<Rightarrow> JUndefined | Some v \<Rightarrow> v)"

definition obj_set :: "js_object \<Rightarrow> string \<Rightarrow> jsval \<Rightarrow> js_object" where
  "obj_set obj k v = AList.update k v obj"

text \<open>Object spread \<open>{...target, ...source}\<close>: each own property of the source is assigned in order.\<close>

definition obj_spread :: "js_object \<Rightarrow> js_object \<Rightarrow> js_object" where
  "obj_spread target source = fold (\<lambda>kv acc. obj_set acc (fst kv) (snd kv)) source target"

text \<open>Truthiness, as tested by \<open>!x\<close> and \<open>x || y\<close>.\<close>

fun truthy :: "jsval \<Rightarrow> bool" where
  "truthy JUndefined = False"
| "truthy JNull = False"
| "truthy (JBool b) = b"
| "truthy (JNum n) = (n \<noteq> NaN \<and> n \<noteq> Finite 0)"
| "truthy (JStr s) = (s \<noteq> [])"
| "truthy (JArr xs) = True"
| "truthy (JObj kvs) = True"

definition js_or :: "jsval \<Rightarrow> jsval \<Rightarrow> jsval" where
  "js_or a b = (if truthy a then a else b)"

text \<open>
  What can be thrown. \<open>Error m\<close> is \<open>new Error(m)\<close>, the only error the program itself
  constructs; \<open>ZodError\<close> is thrown by schema validation with its list of issues;
  \<open>Thrown name message\<close> is an error of a library or of the runtime.
\<close>

datatype path_key = Key string | Index nat

datatype zod_parsed_type =
  ZUndefined | ZNull | ZBoolean | ZNumber | ZNan | ZString | ZArray | ZObject

datatype zod_issue =
    invalid_type zod_parsed_type zod_parsed_type "path_key list"
  | invalid_union "zod_issue list list" "path_key list"

datatype js_error =
    Error string
  | ZodError "zod_issue list"
  | Thrown string string

text \<open>
  String conversion of a thrown error inside a template literal
  (\<open>Error.prototype.toString\<close>: name, colon, message).
\<close>

fun error_name :: "js_error \<Rightarrow> string" where
  "error_name (Error m) = ''Error''"
| "error_name (ZodError is) = ''ZodError''"
| "error_name (Thrown n m) = n"

fun issue_path :: "zod_issue \<Rightarrow> path_key list" where
  "issue_path (invalid_type e r p) = p"
| "issue_path (invalid_union es p) = p"

section \<open>Schema validation\<close>

text \<open>
  The schemas of the program are built from the combinators of the validation library
  (\<open>z.string\<close>, \<open>z.union\<close>, \<open>z.array\<close>, \<open>z.record\<close>, \<open>z.object\<close>).
  A schema takes the path of the value inside the validated document and the value, and
  gives the validated value or the issues found. A container validates all its members and
  reports the issues of all of them; a union returns the result of the first option that
  accepts the value.
\<close>

type_synonym zod_result = "zod_issue list + jsval"
type_synonym zod_schema = "path_key list \<Rightarrow> jsval \<Rightarrow> zod_result"

fun getParsedType :: "jsval \<Rightarrow> zod_parsed_type" where
  "getParsedType JUndefined = ZUndefined"
| "getParsedType JNull = ZNull"
| "getParsedType (JBool b) = ZBoolean"
| "getParsedType (JNum n) = (if n = NaN then ZNan else ZNumber)"
| "getParsedType (JStr s) = ZString"
| "getParsedType (JArr xs) = ZArray"
| "getParsedType (JObj kvs) = ZObject"

definition z_primitive :: "zod_parsed_type \<Rightarrow> zod_schema" where
  "z_primitive t p v =
     (if getParsedType v = t then Inr v else Inl [invalid_type t (getParsedType v) p])"

definition z_string :: zod_schema where "z_string = z_primitive ZString"
definition z_number :: zod_schema where "z_number = z_primitive ZNumber"
definition z_boolean :: zod_schema where "z_boolean = z_primitive ZBoolean"
definition z_null :: zod_schema where "z_null = z_primitive ZNull"

fun issues_of :: "zod_result \<Rightarrow> zod_issue list" where
  "issues_of (Inl is) = is"
| "issues_of (Inr v) = []"

text \<open>The options of a union, already applied to the value, in the order they are tried.\<close>

definition z_union :: "zod_result list \<Rightarrow> path_key list \<Rightarrow> zod_result" where
  "z_union rs p =
     (case find (\<lambda>r. \<not> isl r) rs of
        Some r \<Rightarrow> r
      | None \<Rightarrow> Inl [invalid_union (filter (\<lambda>is. is \<noteq> []) (map issues_of rs)) p])"

fun array_elements :: "jsval \<Rightarrow> jsval list" where
  "array_elements (JArr xs) = xs"
| "array_elements v = []"

fun object_entries :: "jsval \<Rightarrow> (string \<times> jsval) list" where
  "object_entries (JObj kvs) = kvs"
| "object_entries v = []"

definition z_array :: "zod_schema \<Rightarrow> zod_schema" where
  "z_array elem p v =
     (if getParsedType v \<noteq> ZArray then Inl [invalid_type ZArray (getParsedType v) p]
      else let rs = map (\<lambda>ix. elem (p @ [Index (fst ix)]) (snd ix)) (enumerate 0 (array_elements v))
           in if list_all (\<lambda>r. \<not> isl r) rs then Inr (JArr (map projr rs))
              else Inl (concat (map issues_of rs)))"

text \<open>
  The validated members of a record or an object are assigned to a new object in order. A
  member is left out when its key is \<open>__proto__\<close>, and when its value is \<open>undefined\<close>
  and the validated value has no property of that key.
\<close>

definition mergeObject :: "js_object \<Rightarrow> string list \<Rightarrow> js_object" where
  "mergeObject pairs keys =
     obj_spread []
       (filter (\<lambda>kv. fst kv \<noteq> ''__proto__'' \<and> (snd kv \<noteq> JUndefined \<or> fst kv \<in> set keys)) pairs)"

definition z_record :: "zod_schema \<Rightarrow> zod_schema" where
  "z_record valueType p v =
     (if getParsedType v \<noteq> ZObject then Inl [invalid_type ZObject (getParsedType v) p]
      else let rs = map (\<lambda>kv. (fst kv, valueType (p @ [Key (fst kv)]) (snd kv))) (object_entries v)
           in if list_all (\<lambda>kr. \<not> isl (snd kr)) rs
              then Inr (JObj (mergeObject (map (\<lambda>kr. (fst kr, projr (snd kr))) rs)
                               (map fst (object_entries v))))
              else Inl (concat (map (\<lambda>kr. issues_of (snd kr)) rs)))"

text \<open>
  \<open>z.object\<close> validates the keys of its shape, in the order of the shape, against the
  property of that name (\<open>undefined\<close> when the property is absent). Keys of the value
  that the shape does not name are dropped from the result (the library's default).
\<close>

definition z_object :: "(string \<times> zod_schema) list \<Rightarrow> zod_schema" where
  "z_object shape p v =
     (if getParsedType v \<noteq> ZObject then Inl [invalid_type ZObject (getParsedType v) p]
      else let rs = map (\<lambda>ks. (fst ks, (snd ks) (p @ [Key (fst ks)]) (obj_get (object_entries v) (fst ks)))) shape
           in if list_all (\<lambda>kr. \<not> isl (snd kr)) rs
              then Inr (JObj (mergeObject (map (\<lambda>kr. (fst kr, projr (snd kr))) rs)
                               (map fst (object_entries v))))
              else Inl (concat (map (\<lambda>kr. issues_of (snd kr)) rs)))"

lemma z_array_cong [fundef_cong]:
  assumes "v = v'" "p = p'"
    and "\<And>q x. x \<in> set (array_elements v') \<Longrightarrow> f q x = g q x"
  shows "z_array f p v = z_array g p' v'"
proof -
  have "map (\<lambda>ix. f (p' @ [Index (fst ix)]) (snd ix)) (enumerate 0 (array_elements v')) =
        map (\<lambda>ix. g (p' @ [Index (fst ix)]) (snd ix)) (enumerate 0 (array_elements v'))"
    by (rule map_cong) (auto simp: assms(3) in_set_enumerate_eq)
  then show ?thesis
    unfolding z_array_def assms(1,2) by (simp only:)
qed

lemma z_record_cong [fundef_cong]:
  assumes "v = v'" "p = p'"
    and "\<And>q x. x \<in> snd ` set (object_entries v') \<Longrightarrow> f q x = g q x"
  shows "z_record f p v = z_record g p' v'"
proof -
  have "map (\<lambda>kv. (fst kv, f (p' @ [Key (fst kv)]) (snd kv))) (object_entries v') =
        map (\<lambda>kv. (fst kv, g (p' @ [Key (fst kv)]) (snd kv))) (object_entries v')"
    by (rule map_cong) (auto simp: assms(3))
  then show ?thesis
    unfolding z_record_def assms(1,2) by (simp only:)
qed

text \<open>
  \<^verbatim>\<open>
  const JsonPrimitiveSchema = z.union([z.string(), z.number(), z.boolean(), z.null()]);
  const JsonValueSchema = z.lazy(() => z.union([
      JsonPrimitiveSchema, z.array(JsonValueSchema), z.record(JsonValueSchema)]));
  const JsonObjectSchema = z.record(JsonValueSchema);
  const GeneratedToolSchema = z.object({
      name: z.string(), description: z.string(),
      inputSchema: JsonObjectSchema, outputSchema: JsonObjectSchema, code: z.string() });
  \<close>
\<close>

definition JsonPrimitiveSchema :: zod_schema where
  "JsonPrimitiveSchema p v = z_union [z_string p v, z_number p v, z_boolean p v, z_null p v] p"

function JsonValueSchema :: zod_schema where
  "JsonValueSchema p v =
     z_union [JsonPrimitiveSchema p v, z_array JsonValueSchema p v, z_record JsonValueSchema p v] p"
  by pat_completeness auto
termination
proof (relation "measure (\<lambda>pv. size (snd pv))")
  show "wf (measure (\<lambda>pv. size (snd pv)))" by simp
next
  fix p :: "path_key list" and v q x
  assume "x \<in> set (array_elements v)"
  then show "((q, x), (p, v)) \<in> measure (\<lambda>pv. size (snd pv))"
    by (cases v) (auto simp: less_Suc_eq_le size_list_estimation')
next
  fix p :: "path_key list" and v q x
  assume "x \<in> snd ` set (object_entries v)"
  then show "((q, x), (p, v)) \<in> measure (\<lambda>pv. size (snd pv))"
    by (cases v) (fastforce simp: less_Suc_eq_le intro: size_list_estimation')+
qed

declare JsonValueSchema.simps [simp del]

definition JsonObjectSchema :: zod_schema where
  "JsonObjectSchema = z_record JsonValueSchema"

definition GeneratedToolSchema :: zod_schema where
  "GeneratedToolSchema =
     z_object [(''name'', z_string), (''description'', z_string),
               (''inputSchema'', JsonObjectSchema), (''outputSchema'', JsonObjectSchema),
               (''code'', z_string)]"

text \<open>\<open>schema.parse(data)\<close>: validate at the root path, throw a \<open>ZodError\<close> on issues.\<close>

definition zod_parse :: "zod_schema \<Rightarrow> jsval \<Rightarrow> js_error + jsval" where
  "zod_parse schema v = (case schema [] v of Inl is \<Rightarrow> Inl (ZodError is) | Inr r \<Rightarrow> Inr r)"

section \<open>The platform and the libraries\<close>

text \<open>
  Everything the program calls but does not define is a parameter: the JSON functions of
  the runtime, the file system, the slug, case-conversion, code-formatting and template
  libraries, the package registry client, and the process environment. \<open>JSON_parse\<close>
  gives \<open>None\<close> where \<open>JSON.parse\<close> throws its \<open>SyntaxError\<close>; a library function
  that can throw returns a sum.
\<close>

record packument =
  readme :: "string option"

record search_result =
  package_name :: string
  package_description :: "string option"
  score_final :: js_number

record tool_info =
  tool_name :: string
  tool_description :: string

datatype chain_kind = SimpleChain | ExecutorChain | IteratorChain

record env =
  JSON_parse :: "string \<Rightarrow> jsval option"
  JSON_stringify :: "jsval \<Rightarrow> nat \<Rightarrow> string"
  Number_toString :: "js_number \<Rightarrow> string"
  ZodError_message :: "zod_issue list \<Rightarrow> string"
  slugify :: "string \<Rightarrow> string"
  camelCase :: "jsval \<Rightarrow> js_error + string"
  format :: "jsval \<Rightarrow> js_error + string"
  readFileSync :: "string \<Rightarrow> js_error + string"
  Handlebars :: "string \<Rightarrow> (string \<times> jsval) list \<Rightarrow> js_error + string"
  rootPath :: string
  process_env :: "string \<Rightarrow> jsval"
  getPackument :: "string \<Rightarrow> js_error + packument"
  searchPackages :: "string \<Rightarrow> js_error + search_result list"
  SerpAPI :: "jsval \<Rightarrow> js_error + tool_info"
  newChain :: "chain_kind \<Rightarrow> string \<Rightarrow> jsval \<Rightarrow> tool_info list
                 \<Rightarrow> js_error + (js_object \<Rightarrow> js_error + js_object)"

text \<open>Sequencing of computations that may throw, and \<open>try { ... } catch (err) { ... }\<close>.\<close>

definition and_then :: "'e + 'a \<Rightarrow> ('a \<Rightarrow> 'e + 'b) \<Rightarrow> 'e + 'b" where
  "and_then r f = (case r of Inl e \<Rightarrow> Inl e | Inr x \<Rightarrow> f x)"

definition try_catch :: "'e + 'a \<Rightarrow> ('e \<Rightarrow> 'e + 'a) \<Rightarrow> 'e + 'a" where
  "try_catch body handler = (case body of Inl err \<Rightarrow> handler err | Inr x \<Rightarrow> Inr x)"

subsection \<open>Strings\<close>

text \<open>
  \<open>s.replaceAll(pattern, replacement)\<close> for a string pattern: the occurrences are found
  from the left and do not overlap. (None of the replacements of the program contains
  the character \<open>$\<close>, which would be special.)
\<close>

fun replaceAll :: "string \<Rightarrow> string \<Rightarrow> string \<Rightarrow> string" where
  "replaceAll pat rep [] = (if pat = [] then rep else [])"
| "replaceAll pat rep (c # cs) =
     (if pat = [] then rep @ c # replaceAll pat rep cs
      else if take (length pat) (c # cs) = pat
           then rep @ replaceAll pat rep (drop (length pat) (c # cs))
           else c # replaceAll pat rep cs)"

text \<open>\<open>s.slice(-1)\<close>: the last character, or the empty string.\<close>

definition slice_last :: "string \<Rightarrow> string" where
  "slice_last s = (if s = [] then [] else [last s])"

fun js_join :: "string \<Rightarrow> string list \<Rightarrow> string" where
  "js_join sep [] = []"
| "js_join sep [x] = x"
| "js_join sep (x # y # ys) = x @ sep @ js_join sep (y # ys)"

text \<open>
  Conversion to a string, as a template literal and \<open>JSON.parse\<close> apply it to their
  argument. A plain object, whatever its properties, becomes \<open>[object Object]\<close>.
\<close>

fun ToString :: "env \<Rightarrow> jsval \<Rightarrow> string" where
  "ToString d JUndefined = ''undefined''"
| "ToString d JNull = ''null''"
| "ToString d (JBool b) = (if b then ''true'' else ''false'')"
| "ToString d (JNum n) = Number_toString d n"
| "ToString d (JStr s) = s"
| "ToString d (JArr xs) =
     js_join '','' (map (\<lambda>x. if x = JUndefined \<or> x = JNull then [] else ToString d x) xs)"
| "ToString d (JObj kvs) = ''[object Object]''"

fun error_message :: "env \<Rightarrow> js_error \<Rightarrow> string" where
  "error_message d (Error m) = m"
| "error_message d (ZodError is) = ZodError_message d is"
| "error_message d (Thrown n m) = m"

definition error_to_string :: "env \<Rightarrow> js_error \<Rightarrow> string" where
  "error_to_string d e =
     (if error_name e = [] then error_message d e
      else if error_message d e = [] then error_name e
      else error_name e @ '': '' @ error_message d e)"

text \<open>
  The slug library takes a string and is given a property of an object: it throws a
  \<open>TypeError\<close> when the property is not a string (the wording of the message is the
  library's own and is not modelled).
\<close>

definition str_field :: "js_object \<Rightarrow> string \<Rightarrow> js_error + string" where
  "str_field obj k =
     (case obj_get obj k of
        JStr s \<Rightarrow> Inr s
      | _ \<Rightarrow> Inl (Thrown ''TypeError'' (''expected a string: '' @ k)))"

section \<open>Templates and the tool formatter\<close>

text \<open>
  \<open>resolveFromSrc\<close> joins the package root, \<open>/src\<close> and a relative path;
  \<open>readTemplate\<close> reads the file of that name under \<open>templates/\<close>.
\<close>

definition resolveFromSrc :: "env \<Rightarrow> string \<Rightarrow> string" where
  "resolveFromSrc d relativePath = rootPath d @ ''/src/'' @ relativePath"

definition readTemplate :: "env \<Rightarrow> string \<Rightarrow> js_error + string" where
  "readTemplate d name = readFileSync d (resolveFromSrc d (''templates/'' @ name))"

record ToolFormatter =
  tool :: js_object
  langchainTemplate :: string

definition new_ToolFormatter :: "env \<Rightarrow> js_object \<Rightarrow> js_error + ToolFormatter" where
  "new_ToolFormatter d t =
     and_then (readFileSync d (resolveFromSrc d ''templates/langchain-tool.hbs''))
       (\<lambda>langchainTemplateString.
          Inr \<lparr>tool = t, langchainTemplate = langchainTemplateString\<rparr>)"

definition stringifyJsonSchema :: "env \<Rightarrow> jsval \<Rightarrow> string" where
  "stringifyJsonSchema d jsonSchema =
     replaceAll [CHR 0x0A] (CHR 0x0A # ''  '') (JSON_stringify d (js_or jsonSchema JNull) 2)"

text \<open>
  \<^verbatim>\<open>
  static toLangChainDescription(description, inputSchemaString) {
      let result = description;
      if (description.slice(-1) !== '.') { result += '.'; }
      result += ' The action input should adhere to this JSON schema:\\n';
      result += inputSchemaString.replaceAll('{', '{{').replaceAll('}', '}}');
      return result;
  }
  \<close>
\<close>

definition toLangChainDescription :: "string \<Rightarrow> string \<Rightarrow> string" where
  "toLangChainDescription description inputSchemaString =
     (let result = description;
          result = (if slice_last description \<noteq> ''.'' then result @ ''.'' else result);
          result = result @ '' The action input should adhere to this JSON schema:'' @ [CHR 0x0A];
          result = result @ replaceAll ''}'' ''}}'' (replaceAll ''{'' ''{{'' inputSchemaString)
      in result)"

text \<open>
  \<open>toLangChain\<close> hands the properties of the tool to the libraries as they are; what a
  library does with a value that is not a string is the library's. The description goes
  through \<open>toLangChainDescription\<close>: a string as above; an array has a \<open>slice\<close> of its
  own, whose result is never the string \<open>.\<close>, and is converted to a string by the first
  \<open>+=\<close>; any other value has no \<open>slice\<close> to call.
\<close>

definition toLangChainDescription_of :: "env \<Rightarrow> jsval \<Rightarrow> string \<Rightarrow> js_error + string" where
  "toLangChainDescription_of d description inputSchemaString =
     (case description of
        JStr s \<Rightarrow> Inr (toLangChainDescription s inputSchemaString)
      | JArr xs \<Rightarrow>
          Inr (ToString d (JArr xs) @ ''.''
               @ '' The action input should adhere to this JSON schema:'' @ [CHR 0x0A]
               @ replaceAll ''}'' ''}}'' (replaceAll ''{'' ''{{'' inputSchemaString))
      | _ \<Rightarrow> Inl (Thrown ''TypeError'' ''description.slice is not a function''))"

definition toLangChain :: "env \<Rightarrow> ToolFormatter \<Rightarrow> js_error + string" where
  "toLangChain d f =
     and_then (camelCase d (obj_get (tool f) ''slug'')) (\<lambda>className.
     and_then (format d (obj_get (tool f) ''code'')) (\<lambda>toolCode.
     and_then (toLangChainDescription_of d (obj_get (tool f) ''description'')
                 (JSON_stringify d (js_or (obj_get (tool f) ''inputSchema'') JNull) 0))
       (\<lambda>langchainDescription.
       Handlebars d (langchainTemplate f)
         [(''className'', JStr className),
          (''toolCode'', JStr toolCode),
          (''toolSlug'', obj_get (tool f) ''slug''),
          (''langchainDescription'', JStr langchainDescription),
          (''inputSchema'', JStr (stringifyJsonSchema d (obj_get (tool f) ''inputSchema''))),
          (''outputSchema'', JStr (stringifyJsonSchema d (obj_get (tool f) ''outputSchema'')))])))"

definition toolWithFormats :: "env \<Rightarrow> ToolFormatter \<Rightarrow> js_error + js_object" where
  "toolWithFormats d f =
     and_then (toLangChain d f) (\<lambda>langChainCode.
       Inr (obj_set (obj_spread [] (tool f)) ''langChainCode'' (JStr langChainCode)))"

section \<open>Chains\<close>

text \<open>
  A chain object holds its configuration, the lookup tools it lists, and the runnable
  chain built by the agent library, of which the program uses \<open>call\<close> and the callback
  manager. The three classes differ in \<open>getOutputKey\<close>, \<open>getChainValues\<close> and
  \<open>getPromptTemplate\<close>, selected by \<open>kind\<close>.
\<close>

record base_chain =
  kind :: chain_kind
  openAIApiKey :: jsval
  logToConsole :: jsval
  tools :: "tool_info list"
  call :: "js_object \<Rightarrow> js_error + js_object"

text \<open>
  The state that \<open>generate\<close> changes: the handlers of the callback manager, the next
  fresh object identity (each \<open>new ConsoleCallbackHandler\<close> is a new object), and a log of
  the calls made to the runnable chains, each with the handlers attached at that moment.
\<close>

datatype event = ChainCall chain_kind js_object "nat list"

record world =
  handlers :: "nat list"
  next_object :: nat
  trace :: "event list"

definition addHandler :: "nat \<Rightarrow> world \<Rightarrow> world" where
  "addHandler h w = w\<lparr>handlers := handlers w @ [h]\<rparr>"

definition removeHandler :: "nat \<Rightarrow> world \<Rightarrow> world" where
  "removeHandler h w = w\<lparr>handlers := filter (\<lambda>x. x \<noteq> h) (handlers w)\<rparr>"

fun getOutputKey :: "chain_kind \<Rightarrow> string" where
  "getOutputKey SimpleChain = ''text''"
| "getOutputKey ExecutorChain = ''output''"
| "getOutputKey IteratorChain = ''output''"

text \<open>\<open>JSON.stringify(x)\<close> of \<open>undefined\<close> is \<open>undefined\<close>, not a string.\<close>

definition stringify_value :: "env \<Rightarrow> jsval \<Rightarrow> jsval" where
  "stringify_value d v = (if v = JUndefined then JUndefined else JStr (JSON_stringify d v 0))"

definition tools_listing :: "tool_info list \<Rightarrow> js_object" where
  "tools_listing ts =
     [(''tools'', JStr (js_join [CHR 0x0A] (map (\<lambda>t. tool_name t @ '': '' @ tool_description t) ts))),
      (''toolNames'', JStr (js_join '', '' (map tool_name ts)))]"

text \<open>
  The iterator chain destructures its input (\<open>{ tool, logs }\<close>), which throws a
  \<open>TypeError\<close> on \<open>undefined\<close> and \<open>null\<close>.
\<close>

definition getChainValues :: "env \<Rightarrow> base_chain \<Rightarrow> jsval \<Rightarrow> js_error + js_object" where
  "getChainValues d c input =
     (case kind c of
        SimpleChain \<Rightarrow> Inr [(''generateToolInput'', stringify_value d input)]
      | ExecutorChain \<Rightarrow>
          Inr ((''generateToolInput'', stringify_value d input) # tools_listing (tools c))
      | IteratorChain \<Rightarrow>
          (if input = JUndefined \<or> input = JNull
           then Inl (Thrown ''TypeError'' ''Cannot destructure input'')
           else Inr ([(''tool'', stringify_value d (obj_get (object_entries input) ''tool'')),
                      (''runLogs'', obj_get (object_entries input) ''logs'')]
                     @ tools_listing (tools c))))"

text \<open>
  \<^verbatim>\<open>
  async generate(input) {
      const outputKey = this.getOutputKey();
      const chainValues = this.getChainValues(input);
      const consoleCallbackHandler = new ConsoleCallbackHandler({ alwaysVerbose: true });
      if (this.logToConsole) {
          this.chain.callbackManager.addHandler(consoleCallbackHandler);
      }
      const responseValues = await this.chain.call(chainValues);
      const responseString = responseValues[outputKey];
      if (!responseString) {
          throw new Error(`value "${outputKey}" not returned from chain call, got values: ${responseValues}`);
      }
      if (this.logToConsole) {
          this.chain.callbackManager.removeHandler(consoleCallbackHandler);
      }
      return responseString;
  }
  \<close>
\<close>

definition generate :: "env \<Rightarrow> base_chain \<Rightarrow> jsval \<Rightarrow> world \<Rightarrow> (js_error + jsval) \<times> world" where
  "generate d c input w =
     (let outputKey = getOutputKey (kind c) in
       (case getChainValues d c input of
          Inl e \<Rightarrow> (Inl e, w)
        | Inr chainValues \<Rightarrow>
           (let consoleCallbackHandler = next_object w;
                w1 = w\<lparr>next_object := Suc (next_object w)\<rparr>;
                w2 = (if truthy (logToConsole c) then addHandler consoleCallbackHandler w1 else w1);
                w3 = w2\<lparr>trace := trace w2 @ [ChainCall (kind c) chainValues (handlers w2)]\<rparr>
            in (case call c chainValues of
                  Inl e \<Rightarrow> (Inl e, w3)
                | Inr responseValues \<Rightarrow>
                   (let responseString = obj_get responseValues outputKey in
                     (if \<not> truthy responseString
                      then (Inl (Error (''value \"'' @ outputKey
                                   @ ''\" not returned from chain call, got values: ''
                                   @ ToString d (JObj responseValues))), w3)
                      else (Inr responseString,
                            (if truthy (logToConsole c)
                             then removeHandler consoleCallbackHandler w3 else w3))))))))"

text \<open>
  The prompt template of each class, and the constructors. The runnable chain is built by
  the agent library from the prompt template, the model key and the tools.
\<close>

definition getPromptTemplate :: "env \<Rightarrow> chain_kind \<Rightarrow> js_error + string" where
  "getPromptTemplate d k =
     and_then (readTemplate d ''tool-spec.txt'') (\<lambda>toolSpec.
       (case k of
          SimpleChain \<Rightarrow>
            and_then (readTemplate d ''generate-tool-prompt.hbs'') (\<lambda>t.
              Handlebars d t [(''toolSpec'', JStr toolSpec)])
        | ExecutorChain \<Rightarrow>
            and_then (readTemplate d ''generate-tool-prompt.hbs'') (\<lambda>t.
            and_then (Handlebars d t [(''toolSpec'', JStr toolSpec)]) (\<lambda>generateToolPrompt.
            and_then (readTemplate d ''executor-prompt.hbs'') (\<lambda>e.
              Handlebars d e [(''prompt'', JStr generateToolPrompt)])))
        | IteratorChain \<Rightarrow>
            and_then (readTemplate d ''iterate-tool-prompt.hbs'') (\<lambda>t.
            and_then (Handlebars d t [(''toolSpec'', JStr toolSpec)]) (\<lambda>iterateToolPrompt.
            and_then (readTemplate d ''executor-prompt.hbs'') (\<lambda>e.
              Handlebars d e [(''prompt'', JStr iterateToolPrompt)])))))"

definition NpmSearch_info :: tool_info where
  "NpmSearch_info =
     \<lparr>tool_name = ''npm-search'',
      tool_description = ''Search NPM to find packages given a search string. The response is an array of JSON objects including package names, descriptions, and overall quality scores.''\<rparr>"

definition NpmInfo_info :: tool_info where
  "NpmInfo_info =
     \<lparr>tool_name = ''npm-info'',
      tool_description = ''Query NPM to fetch the README file of a particular package by name. Use this to discover implementation and usage details for a given package.''\<rparr>"

definition new_SimpleChain :: "env \<Rightarrow> jsval \<Rightarrow> jsval \<Rightarrow> js_error + base_chain" where
  "new_SimpleChain d key verbose =
     and_then (getPromptTemplate d SimpleChain) (\<lambda>prompt.
     and_then (newChain d SimpleChain prompt key []) (\<lambda>chain.
       Inr \<lparr>kind = SimpleChain, openAIApiKey = key, logToConsole = verbose, tools = [],
            call = chain\<rparr>))"

definition new_AgentChain :: "env \<Rightarrow> chain_kind \<Rightarrow> jsval \<Rightarrow> jsval \<Rightarrow> jsval \<Rightarrow> js_error + base_chain" where
  "new_AgentChain d k key serpKey verbose =
     and_then (SerpAPI d serpKey) (\<lambda>serp.
       (let ts = [NpmSearch_info, NpmInfo_info, serp] in
        and_then (getPromptTemplate d k) (\<lambda>prompt.
        and_then (newChain d k prompt key ts) (\<lambda>chain.
          Inr \<lparr>kind = k, openAIApiKey = key, logToConsole = verbose, tools = ts,
               call = chain\<rparr>))))"

section \<open>Lookup tools\<close>

text \<open>
  \<^verbatim>\<open>
  async _call(packageName) {
      try {
          const results = await getPackument({ name: packageName });
          return results.readme || 'No details available';
      }
      catch (err) { return `Error: ${err}`; }
  }
  \<close>
\<close>

definition NpmInfo_call :: "env \<Rightarrow> string \<Rightarrow> js_error + string" where
  "NpmInfo_call d packageName =
     try_catch
       (and_then (getPackument d packageName) (\<lambda>results.
          Inr (case readme results of
                 None \<Rightarrow> ''No details available''
               | Some r \<Rightarrow> if r = [] then ''No details available'' else r)))
       (\<lambda>err. Inr (''Error: '' @ error_to_string d err))"

text \<open>
  \<^verbatim>\<open>
  async _call(searchString) {
      try {
          const { objects: results } = await searchPackages({ query: { text: searchString } });
          if (results.length < 1) { return 'Error: no results'; }
          const info = results.map(({ package: { name, description }, score: { final } }) =>
              ({ name, description, score: final }));
          return JSON.stringify(info);
      }
      catch (err) { return `Error: ${err}`; }
  }
  \<close>
\<close>

definition search_info :: "search_result \<Rightarrow> jsval" where
  "search_info r =
     JObj [(''name'', JStr (package_name r)),
           (''description'', (case package_description r of None \<Rightarrow> JUndefined | Some t \<Rightarrow> JStr t)),
           (''score'', JNum (score_final r))]"

definition NpmSearch_call :: "env \<Rightarrow> string \<Rightarrow> js_error + string" where
  "NpmSearch_call d searchString =
     try_catch
       (and_then (searchPackages d searchString) (\<lambda>results.
          if length results < 1 then Inr ''Error: no results''
          else Inr (JSON_stringify d (JArr (map search_info results)) 0)))
       (\<lambda>err. Inr (''Error: '' @ error_to_string d err))"

section \<open>The toolkit\<close>

record Toolkit =
  generatorChain :: base_chain
  executorChain :: base_chain
  iteratorChain :: base_chain

text \<open>\<open>input?.key\<close>: \<open>undefined\<close> when the input is \<open>undefined\<close> or \<open>null\<close>.\<close>

definition optional_get :: "jsval \<Rightarrow> string \<Rightarrow> jsval" where
  "optional_get input k = obj_get (object_entries input) k"

definition new_Toolkit :: "env \<Rightarrow> jsval \<Rightarrow> js_error + Toolkit" where
  "new_Toolkit d input =
     (let key = js_or (optional_get input ''openAIApiKey'') (process_env d ''OPENAI_API_KEY'') in
      if \<not> truthy key then Inl (Error ''OpenAI API key not defined in params or environment'')
      else
       (let serpKey = js_or (optional_get input ''serpApiKey'') (process_env d ''SERP_API_KEY'') in
        if \<not> truthy serpKey then Inl (Error ''Serp API key not defined in params or environment'')
        else
         (let verbose = js_or (optional_get input ''logToConsole'') (JBool False) in
          and_then (new_SimpleChain d key verbose) (\<lambda>g.
          and_then (new_AgentChain d ExecutorChain key serpKey verbose) (\<lambda>e.
          and_then (new_AgentChain d IteratorChain key serpKey verbose) (\<lambda>i.
            Inr \<lparr>generatorChain = g, executorChain = e, iteratorChain = i\<rparr>))))))"

text \<open>
  \<^verbatim>\<open>
  parseResponse(responseString) {
      let responseObject;
      try { responseObject = JSON.parse(responseString); }
      catch (err) {
          throw new Error(`response could not be parsed as JSON: ${responseString}`);
      }
      const generatedTool = GeneratedToolSchema.parse(responseObject);
      const baseTool = { slug: slugify(generatedTool.name), ...generatedTool };
      const tool = new ToolFormatter(baseTool).toolWithFormats();
      return tool;
  }
  \<close>
\<close>

definition parseResponse :: "env \<Rightarrow> jsval \<Rightarrow> js_error + js_object" where
  "parseResponse d responseString =
     (case JSON_parse d (ToString d responseString) of
        None \<Rightarrow>
          Inl (Error (''response could not be parsed as JSON: '' @ ToString d responseString))
      | Some responseObject \<Rightarrow>
          and_then (zod_parse GeneratedToolSchema responseObject) (\<lambda>generatedTool.
          and_then (str_field (object_entries generatedTool) ''name'') (\<lambda>name.
            (let baseTool = obj_spread [(''slug'', JStr (slugify d name))] (object_entries generatedTool)
             in and_then (new_ToolFormatter d baseTool) (toolWithFormats d)))))"

text \<open>
  \<^verbatim>\<open>
  async generateTool(input, withExecutor = false) {
      const responseString = withExecutor
          ? await this.generatorChain.generate(input)
          : await this.executorChain.generate(input);
      return this.parseResponse(responseString);
  }
  async iterateTool(input) {
      const responseString = await this.iteratorChain.generate(input);
      return this.parseResponse(responseString);
  }
  \<close>
  The second argument is \<open>JUndefined\<close> when the caller omits it.
\<close>

definition generateTool :: "env \<Rightarrow> Toolkit \<Rightarrow> jsval \<Rightarrow> jsval \<Rightarrow> world \<Rightarrow> (js_error + js_object) \<times> world" where
  "generateTool d tk input arg w =
     (let withExecutor = (if arg = JUndefined then JBool False else arg);
          rw = (if truthy withExecutor then generate d (generatorChain tk) input w
                else generate d (executorChain tk) input w)
      in (case fst rw of
            Inl e \<Rightarrow> (Inl e, snd rw)
          | Inr responseString \<Rightarrow> (parseResponse d responseString, snd rw)))"

definition iterateTool :: "env \<Rightarrow> Toolkit \<Rightarrow> jsval \<Rightarrow> world \<Rightarrow> (js_error + js_object) \<times> world" where
  "iterateTool d tk input w =
     (let rw = generate d (iteratorChain tk) input w
      in (case fst rw of
            Inl e \<Rightarrow> (Inl e, snd rw)
          | Inr responseString \<Rightarrow> (parseResponse d responseString, snd rw)))"

section \<open>What the description is specified to contain\<close>

text \<open>
  The specification of the embedded schema text: every brace is doubled and every other
  character is kept, in order.
\<close>

definition doubled_braces_spec :: "string \<Rightarrow> string" where
  "doubled_braces_spec s =
     concat (map (\<lambda>c. if c = CHR ''{'' then ''{{'' else if c = CHR ''}'' then ''}}'' else [c]) s)"

section \<open>A sample environment\<close>

text \<open>
  Stand-ins for the platform and the libraries, used to run the program on the examples
  below. They agree with the real functions on the values of the examples: the texts that
  \<open>JSON.parse\<close> accepts and rejects, the slug of \<open>CSV Parser\<close>, the serialisation of the
  empty object.
\<close>

definition csv_tool :: jsval where
  "csv_tool =
     JObj [(''name'', JStr ''CSV Parser''), (''description'', JStr ''Parses CSV.''),
           (''inputSchema'', JObj []), (''outputSchema'', JObj []),
           (''code'', JStr ''function f(x){return x}'')]"

definition csv_response :: string where
  "csv_response =
     ''{\"name\":\"CSV Parser\",\"description\":\"Parses CSV.\",\"inputSchema\":{},\"outputSchema\":{},\"code\":\"function f(x){return x}\"}''"

definition csv_tool_other :: jsval where
  "csv_tool_other =
     JObj [(''name'', JStr ''CSV Parser''), (''description'', JStr ''Reads comma separated values''),
           (''inputSchema'', JObj [(''type'', JStr ''string'')]), (''outputSchema'', JObj []),
           (''code'', JStr ''const g = (s) => s.trim()'')]"

definition csv_response_other :: string where
  "csv_response_other =
     ''{\"name\":\"CSV Parser\",\"description\":\"Reads comma separated values\",\"inputSchema\":{\"type\":\"string\"},\"outputSchema\":{},\"code\":\"const g = (s) => s.trim()\"}''"

definition csv_tool_with_slug :: jsval where
  "csv_tool_with_slug =
     JObj [(''slug'', JStr ''chosen-by-the-model''), (''name'', JStr ''CSV Parser''),
           (''description'', JStr ''Parses CSV.''), (''inputSchema'', JObj []),
           (''outputSchema'', JObj []), (''code'', JStr ''function f(x){return x}''),
           (''version'', JNum (Finite 2))]"

definition csv_response_with_slug :: string where
  "csv_response_with_slug =
     ''{\"slug\":\"chosen-by-the-model\",\"name\":\"CSV Parser\",\"description\":\"Parses CSV.\",\"inputSchema\":{},\"outputSchema\":{},\"code\":\"function f(x){return x}\",\"version\":2}''"

definition tool_without_code :: jsval where
  "tool_without_code =
     JObj [(''name'', JStr ''CSV Parser''), (''description'', JStr ''Parses CSV.''),
           (''inputSchema'', JObj []), (''outputSchema'', JObj [])]"

definition response_without_code :: string where
  "response_without_code =
     ''{\"name\":\"CSV Parser\",\"description\":\"Parses CSV.\",\"inputSchema\":{},\"outputSchema\":{}}''"

definition sample_JSON_parse :: "string \<Rightarrow> jsval option" where
  "sample_JSON_parse =
     map_of [(csv_response, csv_tool), (csv_response_other, csv_tool_other),
             (csv_response_with_slug, csv_tool_with_slug),
             (response_without_code, tool_without_code)]"

definition sample_JSON_stringify :: "jsval \<Rightarrow> nat \<Rightarrow> string" where
  "sample_JSON_stringify v indent =
     (if v = JNull then ''null''
      else if v = JObj [] then ''{}''
      else if v = JObj [(''type'', JStr ''string'')] \<and> indent = 0 then ''{\"type\":\"string\"}''
      else if v = JObj [(''type'', JStr ''string'')]
           then ''{'' @ [CHR 0x0A] @ ''  \"type\": \"string\"'' @ [CHR 0x0A] @ ''}''
      else if v = JObj [(''topic'', JStr ''csv'')] then ''{\"topic\":\"csv\"}''
      else ''[]'')"

definition sample_slugify :: "string \<Rightarrow> string" where
  "sample_slugify s =
     map (\<lambda>c. case map_of (zip ''ABCDEFGHIJKLMNOPQRSTUVWXYZ '' ''abcdefghijklmnopqrstuvwxyz-'') c of
                 Some l \<Rightarrow> l | None \<Rightarrow> c) s"

definition sample_files :: "(string \<times> string) list" where
  "sample_files =
     [(''/pkg/src/templates/langchain-tool.hbs'', ''class {{className}} extends Tool''),
      (''/pkg/src/templates/tool-spec.txt'', ''A tool has a name, a description, schemas and code.''),
      (''/pkg/src/templates/generate-tool-prompt.hbs'', ''Generate a tool. {{toolSpec}}''),
      (''/pkg/src/templates/iterate-tool-prompt.hbs'', ''Revise the tool. {{toolSpec}}''),
      (''/pkg/src/templates/executor-prompt.hbs'', ''Use the tools. {{prompt}}'')]"

definition sample_readFileSync :: "string \<Rightarrow> js_error + string" where
  "sample_readFileSync path =
     (case map_of sample_files path of
        Some t \<Rightarrow> Inr t
      | None \<Rightarrow> Inl (Thrown ''Error'' (''ENOENT: no such file or directory, open '' @ path)))"

definition sample_model :: "chain_kind \<Rightarrow> js_object \<Rightarrow> js_error + js_object" where
  "sample_model k chainValues = Inr [(getOutputKey k, JStr csv_response)]"

definition sample_camelCase :: "jsval \<Rightarrow> js_error + string" where
  "sample_camelCase v =
     (case v of
        JStr s \<Rightarrow> Inr (if s = ''csv-parser'' then ''CsvParser'' else s)
      | _ \<Rightarrow> Inl (Thrown ''TypeError'' ''Expected the input to be a string''))"

definition sample_format :: "jsval \<Rightarrow> js_error + string" where
  "sample_format v =
     (case v of
        JStr code \<Rightarrow> Inr code
      | _ \<Rightarrow> Inl (Thrown ''TypeError'' ''Expected the source to be a string''))"

definition sample_Handlebars :: "string \<Rightarrow> (string \<times> jsval) list \<Rightarrow> js_error + string" where
  "sample_Handlebars template bindings =
     Inr (js_join [CHR 0x0A]
            (template # map (\<lambda>kv. case snd kv of JStr t \<Rightarrow> t | _ \<Rightarrow> []) bindings))"

definition sample_env :: env where
  "sample_env =
     \<lparr>JSON_parse = sample_JSON_parse,
      JSON_stringify = sample_JSON_stringify,
      Number_toString = (\<lambda>n. if n = Finite 2 then ''2'' else ''NaN''),
      ZodError_message = (\<lambda>is. ''invalid''),
      slugify = sample_slugify,
      camelCase = sample_camelCase,
      format = sample_format,
      readFileSync = sample_readFileSync,
      Handlebars = sample_Handlebars,
      rootPath = ''/pkg'',
      process_env = (\<lambda>name. JUndefined),
      getPackument = (\<lambda>name. if name = ''left-pad'' then Inr \<lparr>readme = Some ''Pads on the left.''\<rparr>
                                else Inl (Thrown ''FetchError'' ''404 Not Found'')),
      searchPackages = (\<lambda>text. Inr []),
      SerpAPI = (\<lambda>key. Inr \<lparr>tool_name = ''search'', tool_description = ''a search engine''\<rparr>),
      newChain = (\<lambda>k prompt key ts. Inr (sample_model k))\<rparr>"

definition sample_config :: jsval where
  "sample_config = JObj [(''openAIApiKey'', JStr ''k1''), (''serpApiKey'', JStr ''k2'')]"

definition sample_input :: jsval where
  "sample_input = JObj [(''topic'', JStr ''csv'')]"

definition sample_world :: world where
  "sample_world = \<lparr>handlers = [], next_object = 0, trace = []\<rparr>"

text \<open>
  Three verbose chains whose runnable chain answers without the expected field, with the
  field empty, and by throwing.
\<close>

definition verbose_chain :: "(js_object \<Rightarrow> js_error + js_object) \<Rightarrow> base_chain" where
  "verbose_chain f =
     \<lparr>kind = SimpleChain, openAIApiKey = JStr ''k1'', logToConsole = JBool True, tools = [],
      call = f\<rparr>"

definition answer_other_field :: "js_object \<Rightarrow> js_error + js_object" where
  "answer_other_field chainValues = Inr [(''result'', JStr csv_response)]"

definition answer_empty_text :: "js_object \<Rightarrow> js_error + js_object" where
  "answer_empty_text chainValues = Inr [(''text'', JStr [])]"

definition answer_throws :: "js_object \<Rightarrow> js_error + js_object" where
  "answer_throws chainValues = Inl (Thrown ''Error'' ''Request failed with status code 429'')"

definition sample_toolkit :: Toolkit where
  "sample_toolkit =
     \<lparr>generatorChain =
        \<lparr>kind = SimpleChain, openAIApiKey = JStr ''k1'', logToConsole = JBool False,
         tools = [], call = sample_model SimpleChain\<rparr>,
      executorChain =
        \<lparr>kind = ExecutorChain, openAIApiKey = JStr ''k1'', logToConsole = JBool False,
         tools = [NpmSearch_info, NpmInfo_info,
                  \<lparr>tool_name = ''search'', tool_description = ''a search engine''\<rparr>],
         call = sample_model ExecutorChain\<rparr>,
      iteratorChain =
        \<lparr>kind = IteratorChain, openAIApiKey = JStr ''k1'', logToConsole = JBool False,
         tools = [NpmSearch_info, NpmInfo_info,
                  \<lparr>tool_name = ''search'', tool_description = ''a search engine''\<rparr>],
         call = sample_model IteratorChain\<rparr>\<rparr>"

definition csv_formatted :: js_object where
  "csv_formatted =
     [(''slug'', JStr ''csv-parser''), (''name'', JStr ''CSV Parser''),
      (''description'', JStr ''Parses CSV.''), (''inputSchema'', JObj []),
      (''outputSchema'', JObj []), (''code'', JStr ''function f(x){return x}''),
      (''langChainCode'',
       JStr ''class {{className}} extends Tool\<newline>CsvParser\<newline>function f(x){return x}\<newline>csv-parser\<newline>Parses CSV. The action input should adhere to this JSON schema:\<newline>{{}}\<newline>{}\<newline>{}'')]"

definition csv_formatted_other :: js_object where
  "csv_formatted_other =
     [(''slug'', JStr ''csv-parser''), (''name'', JStr ''CSV Parser''),
      (''description'', JStr ''Reads comma separated values''),
      (''inputSchema'', JObj [(''type'', JStr ''string'')]),
      (''outputSchema'', JObj []), (''code'', JStr ''const g = (s) => s.trim()''),
      (''langChainCode'',
       JStr ''class {{className}} extends Tool\<newline>CsvParser\<newline>const g = (s) => s.trim()\<newline>csv-parser\<newline>Reads comma separated values. The action input should adhere to this JSON schema:\<newline>{{\"type\":\"string\"}}\<newline>{\<newline>    \"type\": \"string\"\<newline>  }\<newline>{}'')]"

section \<open>What is observed and what is required\<close>

text \<open>The chains that were called, in order, read off the log of the world.\<close>

fun event_kind :: "event \<Rightarrow> chain_kind" where
  "event_kind (ChainCall k chainValues attached) = k"

definition called_chains :: "world \<Rightarrow> chain_kind list" where
  "called_chains w = map event_kind (trace w)"

text \<open>
  The required fields of a generated tool with the type each must have, as the
  specification lists them.
\<close>

definition required_fields :: "(string \<times> zod_parsed_type) list" where
  "required_fields =
     [(''name'', ZString), (''description'', ZString), (''inputSchema'', ZObject),
      (''outputSchema'', ZObject), (''code'', ZString)]"

section \<open>Properties of the building blocks\<close>

lemma replaceAll_single:
  "replaceAll [a] rep s = concat (map (\<lambda>c. if c = a then rep else [c]) s)"
  by (induction s) auto

lemma double_closing_after_opening:
  "replaceAll ''}'' ''}}'' (concat (map (\<lambda>c. if c = CHR ''{'' then ''{{'' else [c]) s))
     = doubled_braces_spec s"
  by (induction s) (auto simp: doubled_braces_spec_def)

lemma z_string_isl: "isl (z_string p v) \<longleftrightarrow> (\<forall>s. v \<noteq> JStr s)"
  by (cases v) (auto simp: z_string_def z_primitive_def)

lemma z_string_JStr: "z_string p (JStr s) = Inr (JStr s)"
  by (simp add: z_string_def z_primitive_def)

lemma z_string_undefined: "z_string p JUndefined = Inl [invalid_type ZString ZUndefined p]"
  by (simp add: z_string_def z_primitive_def)

lemma JsonObjectSchema_undefined:
  "JsonObjectSchema p JUndefined = Inl [invalid_type ZObject ZUndefined p]"
  by (simp add: JsonObjectSchema_def z_record_def)

lemma JsonObjectSchema_Inr: "JsonObjectSchema p v = Inr r \<Longrightarrow> \<exists>kvs. r = JObj kvs"
  by (auto simp: JsonObjectSchema_def z_record_def Let_def split: if_splits)

lemma JsonValueSchema_JStr: "JsonValueSchema p (JStr s) = Inr (JStr s)"
  by (simp add: JsonValueSchema.simps[of p "JStr s"] z_union_def JsonPrimitiveSchema_def
      z_string_def z_primitive_def)

text \<open>
  A value that the tool schema accepts has a string \<open>name\<close>, and the validated object
  has the five keys of the shape and no other.
\<close>

lemma GeneratedToolSchema_Inr:
  assumes "GeneratedToolSchema p v = Inr g"
  shows "\<exists>n de i o' c.
           obj_get (object_entries v) ''name'' = JStr n \<and>
           g = JObj [(''name'', JStr n), (''description'', JStr de), (''inputSchema'', JObj i),
                     (''outputSchema'', JObj o'), (''code'', JStr c)]"
proof -
  let ?e = "object_entries v"
  let ?i = "JsonObjectSchema (p @ [Key ''inputSchema'']) (obj_get ?e ''inputSchema'')"
  let ?o = "JsonObjectSchema (p @ [Key ''outputSchema'']) (obj_get ?e ''outputSchema'')"
  from assms have ok:
    "\<not> isl (z_string (p @ [Key ''name'']) (obj_get ?e ''name''))"
    "\<not> isl (z_string (p @ [Key ''description'']) (obj_get ?e ''description''))"
    "\<not> isl ?i" "\<not> isl ?o"
    "\<not> isl (z_string (p @ [Key ''code'']) (obj_get ?e ''code''))"
    by (auto simp: GeneratedToolSchema_def z_object_def Let_def split: if_splits)
  from ok obtain n de c where s:
    "obj_get ?e ''name'' = JStr n" "obj_get ?e ''description'' = JStr de"
    "obj_get ?e ''code'' = JStr c"
    by (auto simp: z_string_isl)
  from ok obtain i o' where r: "?i = Inr (JObj i)" "?o = Inr (JObj o')"
    by (metis JsonObjectSchema_Inr sum.collapse(2))
  from assms s r
  have "g = JObj [(''name'', JStr n), (''description'', JStr de), (''inputSchema'', JObj i),
                  (''outputSchema'', JObj o'), (''code'', JStr c)]"
    by (auto simp: GeneratedToolSchema_def z_object_def mergeObject_def Let_def obj_spread_def
        obj_set_def z_string_JStr split: if_splits)
  with s show ?thesis by blast
qed

text \<open>The tool that \<open>parseResponse\<close> returns, whenever it returns one.\<close>

lemma parseResponse_Inr:
  assumes "JSON_parse d (ToString d r) = Some v" and "parseResponse d r = Inr t"
  shows "\<exists>n de i o' c lc.
           obj_get (object_entries v) ''name'' = JStr n \<and>
           t = [(''slug'', JStr (slugify d n)), (''name'', JStr n), (''description'', JStr de),
                (''inputSchema'', JObj i), (''outputSchema'', JObj o'), (''code'', JStr c),
                (''langChainCode'', JStr lc)]"
proof -
  from assms obtain g where g: "GeneratedToolSchema [] v = Inr g"
    by (auto simp: parseResponse_def and_then_def zod_parse_def split: sum.splits)
  from GeneratedToolSchema_Inr[OF g] obtain n de i o' c where
    n: "obj_get (object_entries v) ''name'' = JStr n" and
    gv: "g = JObj [(''name'', JStr n), (''description'', JStr de), (''inputSchema'', JObj i),
                   (''outputSchema'', JObj o'), (''code'', JStr c)]"
    by blast
  from assms g gv obtain lc where
    "t = [(''slug'', JStr (slugify d n)), (''name'', JStr n), (''description'', JStr de),
          (''inputSchema'', JObj i), (''outputSchema'', JObj o'), (''code'', JStr c),
          (''langChainCode'', JStr lc)]"
    by (auto simp: parseResponse_def and_then_def zod_parse_def str_field_def obj_get_def
        obj_spread_def obj_set_def new_ToolFormatter_def toolWithFormats_def Let_def
        split: sum.splits)
  with n show ?thesis by blast
qed

text \<open>
  One call of \<open>generate\<close> that gets as far as the runnable chain calls it exactly once,
  with the new handler attached if and only if logging is on.
\<close>

lemma generate_after_call:
  assumes "getChainValues d c input = Inr cv"
  shows "trace (snd (generate d c input w)) =
         trace w @ [ChainCall (kind c) cv
            (if truthy (logToConsole c) then handlers w @ [next_object w] else handlers w)]"
  using assms
  by (simp add: generate_def Let_def addHandler_def removeHandler_def split: sum.splits)

text \<open>
  When \<open>generate\<close> returns a value, the handlers are those from before the call, provided
  the identities in use are older than the next fresh one.
\<close>

lemma generate_detaches_on_success:
  assumes "fst (generate d c input w) = Inr s"
    and "\<forall>h \<in> set (handlers w). h < next_object w"
  shows "handlers (snd (generate d c input w)) = handlers w"
proof -
  have "filter (\<lambda>x. x \<noteq> next_object w) (handlers w) = handlers w"
    using assms(2) by (induction "handlers w") (auto simp: filter_id_conv)
  with assms(1) show ?thesis
    by (auto simp add: generate_def Let_def addHandler_def removeHandler_def
        split: sum.splits if_splits)
qed

text \<open>
  When \<open>generate\<close> throws after it has attached the handler, the handler is still
  attached: no path of the failure reaches \<open>removeHandler\<close>.
\<close>

lemma generate_failure_keeps_handler:
  assumes "getChainValues d c input = Inr cv"
    and "truthy (logToConsole c)"
    and "isl (fst (generate d c input w))"
  shows "handlers (snd (generate d c input w)) = handlers w @ [next_object w]"
  using assms
  by (auto simp: generate_def Let_def addHandler_def split: sum.splits if_splits)

text \<open>Whatever the response holds, the error for a missing field shows none of it.\<close>

lemma generate_field_not_truthy:
  assumes "getChainValues d c input = Inr cv"
    and "call c cv = Inr vals"
    and "\<not> truthy (obj_get vals (getOutputKey (kind c)))"
  shows "fst (generate d c input w) =
           Inl (Error (''value \"'' @ getOutputKey (kind c)
                  @ ''\" not returned from chain call, got values: [object Object]''))"
  using assms by (simp add: generate_def Let_def)

lemma new_Toolkit_kinds:
  assumes "new_Toolkit d config = Inr tk"
  shows "kind (generatorChain tk) = SimpleChain" and "kind (executorChain tk) = ExecutorChain"
    and "kind (iteratorChain tk) = IteratorChain"
  using assms
  by (auto simp: new_Toolkit_def new_SimpleChain_def new_AgentChain_def and_then_def Let_def
      split: if_splits sum.splits)

lemma called_chains_generate:
  assumes "kind c \<noteq> IteratorChain"
  shows "called_chains (snd (generate d c input w)) = called_chains w @ [kind c]"
proof -
  from assms obtain cv where "getChainValues d c input = Inr cv"
    by (cases "kind c") (auto simp: getChainValues_def)
  from generate_after_call[OF this] show ?thesis
    by (simp add: called_chains_def)
qed

lemmas sample_simps = sample_env_def sample_world_def sample_input_def sample_config_def
  verbose_chain_def answer_other_field_def answer_empty_text_def answer_throws_def
  stringify_value_def sample_JSON_stringify_def sample_JSON_parse_def sample_slugify_def
  sample_readFileSync_def sample_files_def sample_model_def sample_toolkit_def
  sample_camelCase_def sample_format_def sample_Handlebars_def
  csv_response_def csv_response_other_def csv_response_with_slug_def response_without_code_def
  csv_tool_def csv_tool_other_def csv_tool_with_slug_def tool_without_code_def
  csv_formatted_def csv_formatted_other_def

lemmas program_simps = parseResponse_def zod_parse_def GeneratedToolSchema_def z_object_def
  z_record_def mergeObject_def toLangChainDescription_of_def JsonObjectSchema_def z_string_def z_primitive_def and_then_def str_field_def
  obj_get_def obj_set_def obj_spread_def new_ToolFormatter_def toolWithFormats_def
  toLangChain_def toLangChainDescription_def stringifyJsonSchema_def resolveFromSrc_def
  js_or_def slice_last_def Let_def JsonValueSchema_JStr

lemma sample_parse_csv: "parseResponse sample_env (JStr csv_response) = Inr csv_formatted"
  by (simp add: sample_simps program_simps)

lemma sample_parse_other:
  "parseResponse sample_env (JStr csv_response_other) = Inr csv_formatted_other"
  by (simp add: sample_simps program_simps)

lemma sample_parse_with_slug:
  "parseResponse sample_env (JStr csv_response_with_slug) = Inr csv_formatted"
  by (simp add: sample_simps program_simps)

lemma sample_new_Toolkit: "new_Toolkit sample_env sample_config = Inr sample_toolkit"
  by (simp add: sample_simps new_Toolkit_def new_SimpleChain_def new_AgentChain_def
      getPromptTemplate_def readTemplate_def resolveFromSrc_def optional_get_def
      and_then_def obj_get_def js_or_def Let_def)

lemma sample_generate_executor:
  "fst (generate sample_env (executorChain sample_toolkit) sample_input sample_world)
     = Inr (JStr csv_response)"
  by (simp add: generate_def getChainValues_def Let_def sample_toolkit_def sample_model_def
      obj_get_def csv_response_def)

lemma sample_generate_simple:
  "fst (generate sample_env (generatorChain sample_toolkit) sample_input sample_world)
     = Inr (JStr csv_response)"
  by (simp add: generate_def getChainValues_def Let_def sample_toolkit_def sample_model_def
      obj_get_def csv_response_def)

section \<open>The claims\<close>

text \<open>
  C1. \<open>generateTool\<close> routes against the name of its flag: with the flag omitted or
  false it runs \<open>generate\<close> of the executor chain, with the flag true it runs
  \<open>generate\<close> of the simple generator chain, and in every case the response goes to
  \<open>parseResponse\<close>. On a toolkit built by the constructor the chain that is called is
  the agent executor in the first two cases and the plain model chain in the third.
\<close>

theorem generateTool_routes_against_flag:
  assumes "new_Toolkit d config = Inr tk"
  shows "generateTool d tk input JUndefined w =
           (case fst (generate d (executorChain tk) input w) of
              Inl e \<Rightarrow> (Inl e, snd (generate d (executorChain tk) input w))
            | Inr responseString \<Rightarrow>
                (parseResponse d responseString, snd (generate d (executorChain tk) input w)))
       \<and> generateTool d tk input (JBool False) w =
           (case fst (generate d (executorChain tk) input w) of
              Inl e \<Rightarrow> (Inl e, snd (generate d (executorChain tk) input w))
            | Inr responseString \<Rightarrow>
                (parseResponse d responseString, snd (generate d (executorChain tk) input w)))
       \<and> generateTool d tk input (JBool True) w =
           (case fst (generate d (generatorChain tk) input w) of
              Inl e \<Rightarrow> (Inl e, snd (generate d (generatorChain tk) input w))
            | Inr responseString \<Rightarrow>
                (parseResponse d responseString, snd (generate d (generatorChain tk) input w)))
       \<and> called_chains (snd (generateTool d tk input JUndefined w)) = called_chains w @ [ExecutorChain]
       \<and> called_chains (snd (generateTool d tk input (JBool False) w)) = called_chains w @ [ExecutorChain]
       \<and> called_chains (snd (generateTool d tk input (JBool True) w)) = called_chains w @ [SimpleChain]"
proof -
  note k = new_Toolkit_kinds[OF assms]
  have e: "called_chains (snd (generate d (executorChain tk) input w)) = called_chains w @ [ExecutorChain]"
    using called_chains_generate[of "executorChain tk" d input w] k by simp
  have g: "called_chains (snd (generate d (generatorChain tk) input w)) = called_chains w @ [SimpleChain]"
    using called_chains_generate[of "generatorChain tk" d input w] k by simp
  show ?thesis
    using e g by (simp add: generateTool_def Let_def split: sum.splits)
qed

theorem generateTool_routes_against_flag_witness:
  "new_Toolkit sample_env sample_config = Inr sample_toolkit
   \<and> fst (generate sample_env (executorChain sample_toolkit) sample_input sample_world)
       = Inr (JStr csv_response)
   \<and> fst (generate sample_env (generatorChain sample_toolkit) sample_input sample_world)
       = Inr (JStr csv_response)
   \<and> parseResponse sample_env (JStr csv_response) = Inr csv_formatted
   \<and> fst (generateTool sample_env sample_toolkit sample_input JUndefined sample_world)
       = Inr csv_formatted
   \<and> fst (generateTool sample_env sample_toolkit sample_input (JBool False) sample_world)
       = Inr csv_formatted
   \<and> fst (generateTool sample_env sample_toolkit sample_input (JBool True) sample_world)
       = Inr csv_formatted
   \<and> called_chains (snd (generateTool sample_env sample_toolkit sample_input JUndefined sample_world))
       = [ExecutorChain]
   \<and> called_chains (snd (generateTool sample_env sample_toolkit sample_input (JBool False) sample_world))
       = [ExecutorChain]
   \<and> called_chains (snd (generateTool sample_env sample_toolkit sample_input (JBool True) sample_world))
       = [SimpleChain]"
proof -
  have h: "new_Toolkit sample_env sample_config = Inr sample_toolkit"
    by (rule sample_new_Toolkit)
  have e: "called_chains sample_world = []"
    by (simp add: called_chains_def sample_world_def)
  note x = sample_generate_executor
  note s = sample_generate_simple
  note p = sample_parse_csv
  note r = generateTool_routes_against_flag[OF h, of sample_input sample_world]
  from r[THEN conjunct1] x p have a: "fst (generateTool sample_env sample_toolkit sample_input JUndefined sample_world)
       = Inr csv_formatted"
    by simp
  from r[THEN conjunct2, THEN conjunct1] x p have b: "fst (generateTool sample_env sample_toolkit sample_input (JBool False) sample_world)
       = Inr csv_formatted"
    by simp
  from r[THEN conjunct2, THEN conjunct2, THEN conjunct1] s p have c: "fst (generateTool sample_env sample_toolkit sample_input (JBool True) sample_world)
       = Inr csv_formatted"
    by simp
  from r[THEN conjunct2, THEN conjunct2, THEN conjunct2] e have t:
    "called_chains (snd (generateTool sample_env sample_toolkit sample_input JUndefined sample_world))
       = [ExecutorChain]"
    "called_chains (snd (generateTool sample_env sample_toolkit sample_input (JBool False) sample_world))
       = [ExecutorChain]"
    "called_chains (snd (generateTool sample_env sample_toolkit sample_input (JBool True) sample_world))
       = [SimpleChain]"
    by simp_all
  from h x s p a b c t show ?thesis
    by (intro conjI)
qed

text \<open>
  C2. When the response text parses to a JSON object and \<open>parseResponse\<close> returns a tool,
  the slug of the tool is the slug function applied to the \<open>name\<close> of the object: two
  responses with the same name get the same slug, whatever their other fields. When the
  name is \<open>CSV Parser\<close> and the slug library turns that into \<open>csv-parser\<close>, the slug
  is \<open>csv-parser\<close>.
\<close>

theorem parseResponse_slug_from_name:
  assumes "JSON_parse d (ToString d r1) = Some (JObj kvs1)" and "parseResponse d r1 = Inr t1"
    and "JSON_parse d (ToString d r2) = Some (JObj kvs2)" and "parseResponse d r2 = Inr t2"
    and "obj_get kvs1 ''name'' = obj_get kvs2 ''name''"
  shows "obj_get t1 ''slug'' = obj_get t2 ''slug''
       \<and> (\<exists>n. obj_get kvs1 ''name'' = JStr n \<and> obj_get t1 ''slug'' = JStr (slugify d n))
       \<and> (obj_get kvs1 ''name'' = JStr ''CSV Parser'' \<and> slugify d ''CSV Parser'' = ''csv-parser''
            \<longrightarrow> obj_get t1 ''slug'' = JStr ''csv-parser'')"
proof -
  from parseResponse_Inr[OF assms(1,2)] obtain n1 where
    a: "obj_get kvs1 ''name'' = JStr n1" "obj_get t1 ''slug'' = JStr (slugify d n1)"
    by (auto simp: obj_get_def)
  from parseResponse_Inr[OF assms(3,4)] obtain n2 where
    b: "obj_get kvs2 ''name'' = JStr n2" "obj_get t2 ''slug'' = JStr (slugify d n2)"
    by (auto simp: obj_get_def)
  from a b assms(5) show ?thesis by auto
qed

theorem parseResponse_slug_from_name_witness:
  "JSON_parse sample_env (ToString sample_env (JStr csv_response)) = Some (JObj (object_entries csv_tool))
   \<and> parseResponse sample_env (JStr csv_response) = Inr csv_formatted
   \<and> JSON_parse sample_env (ToString sample_env (JStr csv_response_other))
        = Some (JObj (object_entries csv_tool_other))
   \<and> parseResponse sample_env (JStr csv_response_other) = Inr csv_formatted_other
   \<and> obj_get (object_entries csv_tool) ''name'' = obj_get (object_entries csv_tool_other) ''name''
   \<and> obj_get (object_entries csv_tool) ''name'' = JStr ''CSV Parser''
   \<and> slugify sample_env ''CSV Parser'' = ''csv-parser''
   \<and> obj_get csv_formatted ''slug'' = obj_get csv_formatted_other ''slug''
   \<and> obj_get csv_formatted ''slug'' = JStr ''csv-parser''"
proof -
  have a: "JSON_parse sample_env (ToString sample_env (JStr csv_response))
             = Some (JObj (object_entries csv_tool))"
    by (simp add: sample_simps)
  have b: "JSON_parse sample_env (ToString sample_env (JStr csv_response_other))
             = Some (JObj (object_entries csv_tool_other))"
    by (simp add: sample_simps)
  have c: "obj_get (object_entries csv_tool) ''name'' = obj_get (object_entries csv_tool_other) ''name''"
    by (simp add: sample_simps obj_get_def)
  have n: "obj_get (object_entries csv_tool) ''name'' = JStr ''CSV Parser''"
    by (simp add: sample_simps obj_get_def)
  have s: "slugify sample_env ''CSV Parser'' = ''csv-parser''"
    by (simp add: sample_simps)
  note t = parseResponse_slug_from_name[OF a sample_parse_csv b sample_parse_other c]
  from t have e: "obj_get csv_formatted ''slug'' = obj_get csv_formatted_other ''slug''"
    by (rule conjunct1)
  from t n s have f: "obj_get csv_formatted ''slug'' = JStr ''csv-parser''"
    by blast
  from a sample_parse_csv b sample_parse_other c n s e f show ?thesis
    by (intro conjI)
qed

text \<open>
  C3. When the response is a string that \<open>JSON.parse\<close> rejects, \<open>parseResponse\<close> throws
  the error it constructs itself, whose message ends with the response text; it throws
  nothing else. For the response \<open>not json\<close> the message contains \<open>not json\<close>.
\<close>

theorem parseResponse_rejects_non_json:
  assumes "JSON_parse d s = None"
  shows "parseResponse d (JStr s) = Inl (Error (''response could not be parsed as JSON: '' @ s))"
  using assms by (simp add: parseResponse_def)

theorem parseResponse_rejects_non_json_witness:
  "JSON_parse sample_env ''not json'' = None
   \<and> parseResponse sample_env (JStr ''not json'')
        = Inl (Error ''response could not be parsed as JSON: not json'')"
proof -
  have h: "JSON_parse sample_env ''not json'' = None"
    by (simp add: sample_simps)
  show ?thesis
    using h parseResponse_rejects_non_json[OF h] by simp
qed

text \<open>
  C4. When the response parses to a JSON object that lacks one of the required fields,
  \<open>parseResponse\<close> throws the validation error, and its issues include one for that field:
  the path is the field, the expected type is the type the field must have, the received
  type is \<open>undefined\<close>. No tool is returned.
\<close>

theorem parseResponse_missing_field:
  assumes "JSON_parse d (ToString d r) = Some (JObj kvs)"
    and "(f, ty) \<in> set required_fields"
    and "f \<notin> fst ` set kvs"
  shows "\<exists>issues. parseResponse d r = Inl (ZodError issues)
           \<and> invalid_type ty ZUndefined [Key f] \<in> set issues"
proof -
  from assms(3) have "map_of kvs f = None"
    by (simp add: map_of_eq_None_iff)
  then have u: "obj_get kvs f = JUndefined"
    by (simp add: obj_get_def)
  from assms(2) u
  have "\<exists>issues. GeneratedToolSchema [] (JObj kvs) = Inl issues
           \<and> invalid_type ty ZUndefined [Key f] \<in> set issues"
    by (auto simp: required_fields_def GeneratedToolSchema_def z_object_def Let_def
        z_string_undefined JsonObjectSchema_undefined)
  with assms(1) show ?thesis
    by (auto simp: parseResponse_def and_then_def zod_parse_def)
qed

theorem parseResponse_missing_field_witness:
  "JSON_parse sample_env (ToString sample_env (JStr response_without_code))
     = Some (JObj (object_entries tool_without_code))
   \<and> (''code'', ZString) \<in> set required_fields
   \<and> ''code'' \<notin> fst ` set (object_entries tool_without_code)
   \<and> parseResponse sample_env (JStr response_without_code)
        = Inl (ZodError [invalid_type ZString ZUndefined [Key ''code'']])"
proof -
  have a: "JSON_parse sample_env (ToString sample_env (JStr response_without_code))
             = Some (JObj (object_entries tool_without_code))"
    by (simp add: sample_simps)
  have b: "(''code'', ZString) \<in> set required_fields"
    by (simp add: required_fields_def)
  have c: "''code'' \<notin> fst ` set (object_entries tool_without_code)"
    by (simp add: tool_without_code_def)
  have e: "parseResponse sample_env (JStr response_without_code)
        = Inl (ZodError [invalid_type ZString ZUndefined [Key ''code'']])"
    by (simp add: sample_simps program_simps)
  show ?thesis
    using a b c e parseResponse_missing_field[OF a b c] by simp
qed

text \<open>
  C5. The call operation of the package-info and the package-search tool never throws.
  It returns a string: the documentation of the package, or \<open>No details available\<close> when
  the package has none; the serialised search results, or \<open>Error: no results\<close> when there
  are none; and \<open>Error: \<close> followed by the cause when the registry client throws.
\<close>

theorem lookup_tools_never_raise:
  "NpmInfo_call d q =
     Inr (case getPackument d q of
            Inl err \<Rightarrow> ''Error: '' @ error_to_string d err
          | Inr results \<Rightarrow>
              (case readme results of
                 None \<Rightarrow> ''No details available''
               | Some r \<Rightarrow> if r = [] then ''No details available'' else r))
   \<and> NpmSearch_call d q =
     Inr (case searchPackages d q of
            Inl err \<Rightarrow> ''Error: '' @ error_to_string d err
          | Inr results \<Rightarrow>
              if results = [] then ''Error: no results''
              else JSON_stringify d (JArr (map search_info results)) 0)"
  by (simp add: NpmInfo_call_def NpmSearch_call_def try_catch_def and_then_def split: sum.splits)

theorem lookup_tools_never_raise_witness:
  "NpmInfo_call sample_env ''left-pad'' = Inr ''Pads on the left.''
   \<and> NpmInfo_call sample_env ''no-such-package'' = Inr ''Error: FetchError: 404 Not Found''
   \<and> NpmSearch_call sample_env ''csv'' = Inr ''Error: no results''"
  using lookup_tools_never_raise[of sample_env "''left-pad''"]
    lookup_tools_never_raise[of sample_env "''no-such-package''"]
    lookup_tools_never_raise[of sample_env "''csv''"]
  by (simp add: sample_env_def error_to_string_def)

text \<open>
  C6. With logging on, the handler that \<open>generate\<close> attaches stays attached when the call
  fails: on a response without the output field and on a runnable chain that throws, the
  callback manager that was empty before holds the handler afterwards.
\<close>

theorem generate_leaves_handler_attached:
  "handlers sample_world = []
   \<and> isl (fst (generate sample_env (verbose_chain answer_other_field) sample_input sample_world))
   \<and> handlers (snd (generate sample_env (verbose_chain answer_other_field) sample_input sample_world)) = [0]
   \<and> isl (fst (generate sample_env (verbose_chain answer_throws) sample_input sample_world))
   \<and> handlers (snd (generate sample_env (verbose_chain answer_throws) sample_input sample_world)) = [0]"
  by (simp add: generate_def Let_def addHandler_def sample_simps getChainValues_def obj_get_def)

text \<open>
  C7. On a response without the output field \<open>generate\<close> throws an error that names the
  field, but the message does not show the response: the response object
  \<open>{result: ...}\<close> appears as \<open>[object Object]\<close>.
\<close>

theorem generate_error_hides_response:
  "call (verbose_chain answer_other_field) [(''generateToolInput'', JStr ''{\"topic\":\"csv\"}'')]
     = Inr [(''result'', JStr csv_response)]
   \<and> fst (generate sample_env (verbose_chain answer_other_field) sample_input sample_world)
     = Inl (Error ''value \"text\" not returned from chain call, got values: [object Object]'')"
  by (simp add: generate_def Let_def addHandler_def sample_simps getChainValues_def obj_get_def)

text \<open>
  C8. The description made for the agent framework is the tool description, a full stop
  unless the description ends in one, the fixed sentence, and the schema text with every
  brace doubled and every other character unchanged. The tool description itself is kept
  as it is.
\<close>

theorem toLangChainDescription_doubles_braces:
  "toLangChainDescription description inputSchemaString =
     description @ (if description \<noteq> [] \<and> last description = CHR ''.'' then [] else ''.'')
       @ '' The action input should adhere to this JSON schema:\<newline>''
       @ doubled_braces_spec inputSchemaString"
  using double_closing_after_opening[of inputSchemaString]
  by (simp add: toLangChainDescription_def slice_last_def replaceAll_single Let_def)

theorem toLangChainDescription_doubles_braces_witness:
  "toLangChainDescription ''Parses {CSV}'' ''{\"a\":{}}'' =
     ''Parses {CSV}. The action input should adhere to this JSON schema:\<newline>{{\"a\":{{}}}}''"
  using toLangChainDescription_doubles_braces[of "''Parses {CSV}''" "''{\"a\":{}}''"]
  by (simp add: doubled_braces_spec_def)

text \<open>
  C9. When the response parses to a JSON object and \<open>parseResponse\<close> returns a tool, the
  tool has the slug, the five validated fields and the formatted code, and no other key:
  keys of the response that the schema does not name are gone. Its slug is the one derived
  from the name, also when the response carries a \<open>slug\<close> of its own.
\<close>

theorem parseResponse_drops_unknown_keys:
  assumes "JSON_parse d (ToString d r) = Some (JObj kvs)" and "parseResponse d r = Inr t"
  shows "map fst t = [''slug'', ''name'', ''description'', ''inputSchema'', ''outputSchema'',
                      ''code'', ''langChainCode'']
       \<and> (\<exists>n. obj_get kvs ''name'' = JStr n \<and> map_of t ''slug'' = Some (JStr (slugify d n)))"
  using parseResponse_Inr[OF assms] by auto

theorem parseResponse_drops_unknown_keys_witness:
  "JSON_parse sample_env (ToString sample_env (JStr csv_response_with_slug))
     = Some (JObj (object_entries csv_tool_with_slug))
   \<and> parseResponse sample_env (JStr csv_response_with_slug) = Inr csv_formatted
   \<and> map_of (object_entries csv_tool_with_slug) ''slug'' = Some (JStr ''chosen-by-the-model'')
   \<and> map_of (object_entries csv_tool_with_slug) ''version'' = Some (JNum (Finite 2))
   \<and> map fst csv_formatted = [''slug'', ''name'', ''description'', ''inputSchema'', ''outputSchema'',
                      ''code'', ''langChainCode'']
   \<and> map_of csv_formatted ''slug'' = Some (JStr ''csv-parser'')"
proof -
  have a: "JSON_parse sample_env (ToString sample_env (JStr csv_response_with_slug))
     = Some (JObj (object_entries csv_tool_with_slug))"
    by (simp add: sample_simps)
  have b: "map_of (object_entries csv_tool_with_slug) ''slug'' = Some (JStr ''chosen-by-the-model'')
     \<and> map_of (object_entries csv_tool_with_slug) ''version'' = Some (JNum (Finite 2))"
    by (simp add: csv_tool_with_slug_def)
  have c: "map_of csv_formatted ''slug'' = Some (JStr ''csv-parser'')"
    by (simp add: csv_formatted_def)
  show ?thesis
    using a b c parseResponse_drops_unknown_keys[OF a sample_parse_with_slug] sample_parse_with_slug
    by simp
qed

text \<open>
  C10. When the response holds the output field with the empty string as its value,
  \<open>generate\<close> throws the error for a missing field and returns nothing: the test is on
  the truthiness of the value.
\<close>

theorem generate_empty_string_is_missing:
  assumes "getChainValues d c input = Inr cv"
    and "call c cv = Inr vals"
    and "map_of vals (getOutputKey (kind c)) = Some (JStr [])"
  shows "fst (generate d c input w) =
           Inl (Error (''value \"'' @ getOutputKey (kind c)
                  @ ''\" not returned from chain call, got values: [object Object]''))"
proof -
  from assms(3) have "\<not> truthy (obj_get vals (getOutputKey (kind c)))"
    by (simp add: obj_get_def)
  from generate_field_not_truthy[OF assms(1,2) this] show ?thesis .
qed

theorem generate_empty_string_is_missing_witness:
  "getChainValues sample_env (verbose_chain answer_empty_text) sample_input
      = Inr [(''generateToolInput'', JStr ''{\"topic\":\"csv\"}'')]
   \<and> call (verbose_chain answer_empty_text) [(''generateToolInput'', JStr ''{\"topic\":\"csv\"}'')]
      = Inr [(''text'', JStr [])]
   \<and> map_of [(''text'', JStr [])] (getOutputKey (kind (verbose_chain answer_empty_text))) = Some (JStr [])
   \<and> fst (generate sample_env (verbose_chain answer_empty_text) sample_input sample_world)
      = Inl (Error ''value \"text\" not returned from chain call, got values: [object Object]'')"
proof -
  have a: "getChainValues sample_env (verbose_chain answer_empty_text) sample_input
      = Inr [(''generateToolInput'', JStr ''{\"topic\":\"csv\"}'')]"
    by (simp add: sample_simps getChainValues_def)
  have b: "call (verbose_chain answer_empty_text) [(''generateToolInput'', JStr ''{\"topic\":\"csv\"}'')]
      = Inr [(''text'', JStr [])]"
    by (simp add: sample_simps)
  have c: "map_of [(''text'', JStr [])] (getOutputKey (kind (verbose_chain answer_empty_text)))
      = Some (JStr [])"
    by (simp add: sample_simps)
  show ?thesis
    using a b c generate_empty_string_is_missing[OF a b c, of sample_world]
    by (simp add: verbose_chain_def)
qed

end
